theory Spec2Isabelle
  imports Main
begin

section \<open>Python values and the operations the generator applies to them\<close>

text \<open>
  \<open>json.load\<close> produces \<open>None\<close>, booleans, integers, strings, lists and dictionaries.
  A dictionary is kept as an association list in insertion order (\<open>items()\<close> and
  iteration follow that order); a dictionary built by \<open>json.load\<close> has distinct keys.
  JSON real numbers are left out: how \<open>str\<close> prints a float is not part of this model.
  Strings are lists of 8-bit characters; the case and escape functions below treat the
  characters above 127 as uncased and printable.
\<close>

datatype json =
    JNull
  | JBool bool
  | JInt int
  | JStr string
  | JList "json list"
  | JObj "(string \<times> json) list"

datatype error =
    KeyError string
  | TypeError
  | AttributeError
  | IndexError
  | IOError

text \<open>An exception propagates: the first failing step decides the result.\<close>

fun bnd :: "error + 'a \<Rightarrow> ('a \<Rightarrow> error + 'b) \<Rightarrow> error + 'b" where
  "bnd (Inl e) f = Inl e"
| "bnd (Inr x) f = f x"

text \<open>\<open>for x in xs: body\<close> over a state, and a list comprehension whose element may raise.\<close>

fun for_each :: "('a \<Rightarrow> 's \<Rightarrow> error + 's) \<Rightarrow> 'a list \<Rightarrow> 's \<Rightarrow> error + 's" where
  "for_each body [] s = Inr s"
| "for_each body (x # xs) s = bnd (body x s) (for_each body xs)"

fun comprehension :: "('a \<Rightarrow> error + 'b) \<Rightarrow> 'a list \<Rightarrow> error + 'b list" where
  "comprehension f [] = Inr []"
| "comprehension f (x # xs) = bnd (f x) (\<lambda>y. bnd (comprehension f xs) (\<lambda>ys. Inr (y # ys)))"

text \<open>\<open>d[key]\<close> on a Python dictionary.\<close>

definition lookup_key :: "string \<Rightarrow> 'a option \<Rightarrow> error + 'a" where
  "lookup_key k v = (case v of None \<Rightarrow> Inl (KeyError k) | Some x \<Rightarrow> Inr x)"

text \<open>\<open>v[key]\<close> with a string key: only a dictionary accepts it.\<close>

fun py_getitem :: "json \<Rightarrow> string \<Rightarrow> error + json" where
  "py_getitem (JObj kvs) k = lookup_key k (map_of kvs k)"
| "py_getitem _ k = Inl TypeError"

text \<open>\<open>v.get(key, default)\<close>: a method of dictionaries only.\<close>

fun py_get :: "json \<Rightarrow> string \<Rightarrow> json \<Rightarrow> error + json" where
  "py_get (JObj kvs) k dflt = Inr (case map_of kvs k of None \<Rightarrow> dflt | Some v \<Rightarrow> v)"
| "py_get _ k dflt = Inl AttributeError"

text \<open>\<open>v.items()\<close>: a method of dictionaries only.\<close>

fun py_items :: "json \<Rightarrow> error + (string \<times> json) list" where
  "py_items (JObj kvs) = Inr kvs"
| "py_items _ = Inl AttributeError"

text \<open>Iteration: a list gives its elements, a dictionary its keys, a string its characters.\<close>

fun py_iter :: "json \<Rightarrow> error + json list" where
  "py_iter (JList xs) = Inr xs"
| "py_iter (JObj kvs) = Inr (map (\<lambda>kv. JStr (fst kv)) kvs)"
| "py_iter (JStr s) = Inr (map (\<lambda>c. JStr [c]) s)"
| "py_iter _ = Inl TypeError"

fun py_len :: "json \<Rightarrow> error + int" where
  "py_len (JList xs) = Inr (int (length xs))"
| "py_len (JObj kvs) = Inr (int (length kvs))"
| "py_len (JStr s) = Inr (int (length s))"
| "py_len _ = Inl TypeError"

text \<open>\<open>needle in hay\<close> on strings is the substring test.\<close>

fun starts_with :: "string \<Rightarrow> string \<Rightarrow> bool" where
  "starts_with s [] = True"
| "starts_with [] (p # ps) = False"
| "starts_with (c # cs) (p # ps) = (c = p \<and> starts_with cs ps)"

fun substring_of :: "string \<Rightarrow> string \<Rightarrow> bool" where
  "substring_of p [] = (p = [])"
| "substring_of p (c # cs) = (starts_with (c # cs) p \<or> substring_of p cs)"

text \<open>\<open>key in v\<close> for a string key.\<close>

fun py_contains :: "string \<Rightarrow> json \<Rightarrow> error + bool" where
  "py_contains k (JObj kvs) = Inr (k \<in> set (map fst kvs))"
| "py_contains k (JList xs) = Inr (JStr k \<in> set xs)"
| "py_contains k (JStr s) = Inr (substring_of k s)"
| "py_contains k _ = Inl TypeError"

text \<open>Truth value of an object in a condition.\<close>

fun py_truthy :: "json \<Rightarrow> bool" where
  "py_truthy JNull = False"
| "py_truthy (JBool b) = b"
| "py_truthy (JInt n) = (n \<noteq> 0)"
| "py_truthy (JStr s) = (s \<noteq> [])"
| "py_truthy (JList xs) = (xs \<noteq> [])"
| "py_truthy (JObj kvs) = (kvs \<noteq> [])"

subsection \<open>String conversion\<close>

definition digit_char :: "nat \<Rightarrow> char" where
  "digit_char d = ''0123456789'' ! (d mod 10)"

fun digits :: "nat \<Rightarrow> string" where
  "digits n = (if n < 10 then [digit_char n] else digits (n div 10) @ [digit_char (n mod 10)])"

declare digits.simps [simp del]

definition str_int :: "int \<Rightarrow> string" where
  "str_int i = (if i < 0 then CHR ''-'' # digits (nat (- i)) else digits (nat i))"

definition hex_char :: "nat \<Rightarrow> char" where
  "hex_char d = ''0123456789abcdef'' ! (d mod 16)"

text \<open>\<open>repr\<close> of a string: double quotes only when the text has a single quote and no
  double quote; the quote in use, the backslash and the control characters are escaped.\<close>

definition repr_quote :: "string \<Rightarrow> char" where
  "repr_quote s = (if CHR 0x27 \<in> set s \<and> CHR 0x22 \<notin> set s then CHR 0x22 else CHR 0x27)"

definition repr_char :: "char \<Rightarrow> char \<Rightarrow> string" where
  "repr_char q c =
     (if c = q \<or> c = CHR 0x5C then [CHR 0x5C, c]
      else if c = CHR 0x09 then [CHR 0x5C, CHR ''t'']
      else if c = CHR 0x0A then [CHR 0x5C, CHR ''n'']
      else if c = CHR 0x0D then [CHR 0x5C, CHR ''r'']
      else if (of_char c :: nat) < 32 \<or> (of_char c :: nat) = 127
        then [CHR 0x5C, CHR ''x'', hex_char (of_char c div 16), hex_char (of_char c mod 16)]
      else [c])"

definition repr_str :: "string \<Rightarrow> string" where
  "repr_str s = (let q = repr_quote s in [q] @ concat (map (repr_char q) s) @ [q])"

fun py_repr :: "json \<Rightarrow> string"
  and repr_elems :: "json list \<Rightarrow> string"
  and repr_items :: "(string \<times> json) list \<Rightarrow> string" where
  "py_repr JNull = ''None''"
| "py_repr (JBool b) = (if b then ''True'' else ''False'')"
| "py_repr (JInt i) = str_int i"
| "py_repr (JStr s) = repr_str s"
| "py_repr (JList xs) = ''['' @ repr_elems xs @ '']''"
| "py_repr (JObj kvs) = ''{'' @ repr_items kvs @ ''}''"
| "repr_elems [] = []"
| "repr_elems [x] = py_repr x"
| "repr_elems (x # y # ys) = py_repr x @ '', '' @ repr_elems (y # ys)"
| "repr_items [] = []"
| "repr_items [(k, v)] = repr_str k @ '': '' @ py_repr v"
| "repr_items ((k, v) # kv # kvs) = repr_str k @ '': '' @ py_repr v @ '', '' @ repr_items (kv # kvs)"

text \<open>\<open>str(v)\<close>: a string is itself, everything else prints as its \<open>repr\<close>.\<close>

fun py_str :: "json \<Rightarrow> string" where
  "py_str (JStr s) = s"
| "py_str v = py_repr v"

text \<open>\<open>s.replace('_', ' ')\<close> and \<open>s.title()\<close>.\<close>

definition replace_underscores :: "string \<Rightarrow> string" where
  "replace_underscores s = map (\<lambda>c. if c = CHR ''_'' then CHR '' '' else c) s"

definition is_upper :: "char \<Rightarrow> bool" where
  "is_upper c = (65 \<le> (of_char c :: nat) \<and> (of_char c :: nat) \<le> 90)"

definition is_lower :: "char \<Rightarrow> bool" where
  "is_lower c = (97 \<le> (of_char c :: nat) \<and> (of_char c :: nat) \<le> 122)"

definition to_upper :: "char \<Rightarrow> char" where
  "to_upper c = (if is_lower c then char_of ((of_char c :: nat) - 32) else c)"

definition to_lower :: "char \<Rightarrow> char" where
  "to_lower c = (if is_upper c then char_of ((of_char c :: nat) + 32) else c)"

fun title_from :: "bool \<Rightarrow> string \<Rightarrow> string" where
  "title_from prev_cased [] = []"
| "title_from prev_cased (c # cs) =
     (if is_upper c \<or> is_lower c
      then (if prev_cased then to_lower c else to_upper c) # title_from True cs
      else c # title_from False cs)"

definition str_title :: "string \<Rightarrow> string" where
  "str_title s = title_from False s"

text \<open>\<open>v.title()\<close>: a method of strings only.\<close>

fun py_title :: "json \<Rightarrow> error + json" where
  "py_title (JStr s) = Inr (JStr (str_title s))"
| "py_title _ = Inl AttributeError"

section \<open>The document under construction\<close>

text \<open>
  The document-authoring library is not part of the repository. Its document is modelled
  as the sequence of blocks appended so far: a heading with its level, text and whether
  it is centred; a paragraph as its runs; a table as its style and its rows of cells.
  A cell holds its text and whether its first run is bold. Assigning \<open>cell.text\<close>
  replaces the cell's content by one plain run; \<open>cells[i]\<close> raises \<open>IndexError\<close>
  outside the row.
\<close>

datatype run = Run (run_text: string) (run_bold: bool)

datatype cell = Cell (cell_text: string) (cell_bold: bool)

datatype block =
    Heading nat string bool
  | Paragraph "run list"
  | Table string "cell list list"

definition empty_cell :: cell where
  "empty_cell = Cell [] False"

definition set_text :: "cell list \<Rightarrow> nat \<Rightarrow> string \<Rightarrow> error + cell list" where
  "set_text cells i s = (if i < length cells then Inr (cells[i := Cell s False]) else Inl IndexError)"

definition set_bold :: "cell list \<Rightarrow> nat \<Rightarrow> error + cell list" where
  "set_bold cells i =
     (if i < length cells then Inr (cells[i := Cell (cell_text (cells ! i)) True]) else Inl IndexError)"

text \<open>
  The template file maps a category key to an entry; an entry is typed here by what
  \<open>add_title\<close> and \<open>add_table\<close> declare for their arguments. A field is \<open>None\<close>
  when the entry has no such key (the lookup then raises \<open>KeyError\<close>); a table title
  that is present may be null.
\<close>

record template =
  title :: "string option"
  table1_headers :: "string list option"
  table1_title :: "string option option"
  table2_headers :: "string list option"
  table2_title :: "string option option"
  table3_headers :: "string list option"
  table3_title :: "string option option"

record generator =
  json_data :: json
  templates :: "string \<rightharpoonup> template"
  doc :: "block list"

text \<open>The files written so far, and which paths \<open>save\<close> can write.\<close>

record filesystem =
  files :: "string \<rightharpoonup> block list"
  writable :: "string \<Rightarrow> bool"

definition save :: "block list \<Rightarrow> string \<Rightarrow> filesystem \<Rightarrow> error option \<times> filesystem" where
  "save d path fs =
     (if writable fs path then (None, fs\<lparr>files := (files fs)(path \<mapsto> d)\<rparr>) else (Some IOError, fs))"

section \<open>The generator\<close>

definition add_title :: "string \<Rightarrow> block list \<Rightarrow> block list" where
  "add_title text d = d @ [Heading 1 text True] @ [Paragraph []]"

definition write_headers :: "string list \<Rightarrow> cell list \<Rightarrow> error + cell list" where
  "write_headers headers header_cells =
     for_each (\<lambda>(i, header) cells. bnd (set_text cells i header) (\<lambda>cells. set_bold cells i))
       (enumerate 0 headers) header_cells"

definition fill_row :: "json list \<Rightarrow> cell list \<Rightarrow> error + cell list" where
  "fill_row row_data row_cells =
     for_each (\<lambda>(i, cell_data) cells. set_text cells i (py_str cell_data))
       (enumerate 0 row_data) row_cells"

definition add_rows :: "nat \<Rightarrow> json list list \<Rightarrow> cell list list \<Rightarrow> error + cell list list" where
  "add_rows ncols rows table_rows =
     for_each (\<lambda>row_data trs. bnd (fill_row row_data (replicate ncols empty_cell))
                 (\<lambda>row_cells. Inr (trs @ [row_cells])))
       rows table_rows"

definition add_table :: "string list \<Rightarrow> json list list \<Rightarrow> string option \<Rightarrow> block list \<Rightarrow> error + block list" where
  "add_table headers rows ttl d =
     (let d1 = (case ttl of None \<Rightarrow> d
                | Some t \<Rightarrow> if t \<noteq> [] then d @ [Paragraph [Run t True]] else d);
          ncols = length headers
      in bnd (write_headers headers (replicate ncols empty_cell)) (\<lambda>header_cells.
         bnd (add_rows ncols rows [header_cells]) (\<lambda>table_rows.
         Inr (d1 @ [Table ''Table Grid'' table_rows] @ [Paragraph []]))))"

text \<open>\<open>self.add_table(template[hk], rows, template[tk])\<close>: the two lookups come first.\<close>

definition template_table ::
  "string \<Rightarrow> string list option \<Rightarrow> string \<Rightarrow> string option option \<Rightarrow> json list list \<Rightarrow>
   block list \<Rightarrow> error + block list" where
  "template_table hk hv tk tv rows d =
     bnd (lookup_key hk hv) (\<lambda>headers.
     bnd (lookup_key tk tv) (\<lambda>ttl.
     add_table headers rows ttl d))"

definition table1 :: "template \<Rightarrow> json list list \<Rightarrow> block list \<Rightarrow> error + block list" where
  "table1 tpl = template_table ''table1_headers'' (table1_headers tpl) ''table1_title'' (table1_title tpl)"

definition table2 :: "template \<Rightarrow> json list list \<Rightarrow> block list \<Rightarrow> error + block list" where
  "table2 tpl = template_table ''table2_headers'' (table2_headers tpl) ''table2_title'' (table2_title tpl)"

definition table3 :: "template \<Rightarrow> json list list \<Rightarrow> block list \<Rightarrow> error + block list" where
  "table3 tpl = template_table ''table3_headers'' (table3_headers tpl) ''table3_title'' (table3_title tpl)"

subsection \<open>Type A\<close>

definition type_a_row :: "json \<Rightarrow> error + json list" where
  "type_a_row item =
     bnd (py_getitem item ''id'') (\<lambda>a.
     bnd (py_getitem item ''name'') (\<lambda>b.
     bnd (py_getitem item ''description'') (\<lambda>c.
     Inr [a, b, c])))"

definition type_a_item :: "template \<Rightarrow> json \<Rightarrow> block list \<Rightarrow> error + block list" where
  "type_a_item tpl item d =
     bnd (py_getitem item ''parameters'') (\<lambda>params.
     bnd (py_getitem params ''status'') (\<lambda>a.
     bnd (py_getitem params ''priority'') (\<lambda>b.
     bnd (py_getitem params ''last_updated'') (\<lambda>c.
     table2 tpl [[a, b, c]] d))))"

definition process_type_a :: "(string \<rightharpoonup> template) \<Rightarrow> json \<Rightarrow> block list \<Rightarrow> error + block list" where
  "process_type_a tpls data d =
     bnd (lookup_key ''type_a'' (tpls ''type_a'')) (\<lambda>tpl.
     bnd (lookup_key ''title'' (title tpl)) (\<lambda>t.
     let d = add_title t d in
     bnd (py_iter data) (\<lambda>items.
     bnd (comprehension type_a_row items) (\<lambda>rows.
     bnd (table1 tpl rows d) (\<lambda>d.
     bnd (py_iter data) (\<lambda>items.
     bnd (for_each (type_a_item tpl) items d) (\<lambda>d.
     bnd (py_len data) (\<lambda>n.
     table3 tpl [[JStr ''Total Devices'', JInt n]] d))))))))"

subsection \<open>Type B\<close>

definition type_b_item :: "template \<Rightarrow> json \<Rightarrow> block list \<Rightarrow> error + block list" where
  "type_b_item tpl item d =
     bnd (py_getitem item ''component_id'') (\<lambda>a.
     bnd (py_getitem item ''installation_date'') (\<lambda>b.
     bnd (table1 tpl [[a, b]] d) (\<lambda>d.
     bnd (py_getitem item ''specs'') (\<lambda>specs.
     bnd (py_items specs) (\<lambda>kvs.
     bnd (table2 tpl (map (\<lambda>(k, v). [JStr k, v]) kvs) d) (\<lambda>d.
     bnd (py_getitem specs ''manufacturer'') (\<lambda>m.
     table3 tpl [[JStr ''Manufacturer'', m]] d)))))))"

definition process_type_b :: "(string \<rightharpoonup> template) \<Rightarrow> json \<Rightarrow> block list \<Rightarrow> error + block list" where
  "process_type_b tpls data d =
     bnd (lookup_key ''type_b'' (tpls ''type_b'')) (\<lambda>tpl.
     bnd (lookup_key ''title'' (title tpl)) (\<lambda>t.
     let d = add_title t d in
     bnd (py_iter data) (\<lambda>items.
     for_each (type_b_item tpl) items d)))"

subsection \<open>Type C\<close>

definition numbered :: "json list \<Rightarrow> json list list" where
  "numbered xs = map (\<lambda>(i, x). [JInt (int i + 1), x]) (enumerate 0 xs)"

definition type_c_item :: "template \<Rightarrow> json \<Rightarrow> block list \<Rightarrow> error + block list" where
  "type_c_item tpl item d =
     bnd (py_getitem item ''transaction_id'') (\<lambda>a.
     bnd (py_getitem item ''amount'') (\<lambda>b.
     bnd (py_getitem item ''currency'') (\<lambda>c.
     bnd (table1 tpl [[a, b, c]] d) (\<lambda>d.
     bnd (py_getitem item ''parties'') (\<lambda>parties.
     bnd (py_iter parties) (\<lambda>ps.
     bnd (table2 tpl (numbered ps) d) (\<lambda>d.
     bnd (py_getitem item ''approved'') (\<lambda>approved.
     table3 tpl [[JStr ''Approved'', JStr (if py_truthy approved then ''Yes'' else ''No'')]] d))))))))"

definition process_type_c :: "(string \<rightharpoonup> template) \<Rightarrow> json \<Rightarrow> block list \<Rightarrow> error + block list" where
  "process_type_c tpls data d =
     bnd (lookup_key ''type_c'' (tpls ''type_c'')) (\<lambda>tpl.
     bnd (lookup_key ''title'' (title tpl)) (\<lambda>t.
     let d = add_title t d in
     bnd (py_iter data) (\<lambda>items.
     for_each (type_c_item tpl) items d)))"

subsection \<open>Type D\<close>

definition type_d_item :: "template \<Rightarrow> json \<Rightarrow> block list \<Rightarrow> error + block list" where
  "type_d_item tpl item d =
     bnd (py_getitem item ''test_id'') (\<lambda>a.
     bnd (py_getitem item ''environment'') (\<lambda>b.
     bnd (table1 tpl [[a, b]] d) (\<lambda>d.
     bnd (py_getitem item ''metrics'') (\<lambda>metrics.
     bnd (py_items metrics) (\<lambda>kvs.
     bnd (table2 tpl (map (\<lambda>(k, v). [JStr (str_title (replace_underscores k)), v]) kvs) d) (\<lambda>d.
     bnd (py_getitem item ''environment'') (\<lambda>env.
     bnd (py_title env) (\<lambda>e.
     table3 tpl [[JStr ''Environment Type'', e]] d))))))))"

definition process_type_d :: "(string \<rightharpoonup> template) \<Rightarrow> json \<Rightarrow> block list \<Rightarrow> error + block list" where
  "process_type_d tpls data d =
     bnd (lookup_key ''type_d'' (tpls ''type_d'')) (\<lambda>tpl.
     bnd (lookup_key ''title'' (title tpl)) (\<lambda>t.
     let d = add_title t d in
     bnd (py_iter data) (\<lambda>items.
     for_each (type_d_item tpl) items d)))"

subsection \<open>Type E\<close>

definition type_e_item :: "template \<Rightarrow> json \<Rightarrow> block list \<Rightarrow> error + block list" where
  "type_e_item tpl item d =
     bnd (py_getitem item ''employee_id'') (\<lambda>a.
     bnd (py_getitem item ''department'') (\<lambda>b.
     bnd (py_getitem item ''role'') (\<lambda>c.
     bnd (table1 tpl [[a, b, c]] d) (\<lambda>d.
     bnd (py_getitem item ''projects'') (\<lambda>projects.
     bnd (py_iter projects) (\<lambda>ps.
     bnd (table2 tpl (numbered ps) d) (\<lambda>d.
     bnd (py_getitem item ''projects'') (\<lambda>projects.
     bnd (py_len projects) (\<lambda>n.
     table3 tpl [[JStr ''Total Projects'', JInt n]] d)))))))))"

definition process_type_e :: "(string \<rightharpoonup> template) \<Rightarrow> json \<Rightarrow> block list \<Rightarrow> error + block list" where
  "process_type_e tpls data d =
     bnd (lookup_key ''type_e'' (tpls ''type_e'')) (\<lambda>tpl.
     bnd (lookup_key ''title'' (title tpl)) (\<lambda>t.
     let d = add_title t d in
     bnd (py_iter data) (\<lambda>items.
     for_each (type_e_item tpl) items d)))"

subsection \<open>Assembly\<close>

text \<open>\<open>if key in objects: process(objects[key])\<close>.\<close>

definition if_present ::
  "string \<Rightarrow> json \<Rightarrow> (json \<Rightarrow> block list \<Rightarrow> error + block list) \<Rightarrow> block list \<Rightarrow> error + block list" where
  "if_present key objects process d =
     bnd (py_contains key objects) (\<lambda>present.
     if present then bnd (py_getitem objects key) (\<lambda>data. process data d) else Inr d)"

definition assemble :: "generator \<Rightarrow> error + block list" where
  "assemble self =
     bnd (py_get (json_data self) ''objects'' (JObj [])) (\<lambda>objects.
     bnd (if_present ''TypeA'' objects (process_type_a (templates self)) (doc self)) (\<lambda>d.
     bnd (if_present ''TypeB'' objects (process_type_b (templates self)) d) (\<lambda>d.
     bnd (if_present ''TypeC'' objects (process_type_c (templates self)) d) (\<lambda>d.
     bnd (if_present ''TypeD'' objects (process_type_d (templates self)) d) (\<lambda>d.
     if_present ''TypeE'' objects (process_type_e (templates self)) d)))))"

definition generate_document :: "generator \<Rightarrow> string \<Rightarrow> filesystem \<Rightarrow> error option \<times> filesystem" where
  "generate_document self output_file fs =
     (case assemble self of
        Inl e \<Rightarrow> (Some e, fs)
      | Inr d \<Rightarrow> save d output_file fs)"

section \<open>Notions used to state the properties\<close>

text \<open>The header row of a table, a data row as rendered in a table of \<open>ncols\<close> columns
  (cells past the end of the row stay empty), the optional title paragraph, and the blocks
  one \<open>add_table\<close> call appends.\<close>

definition header_row :: "string list \<Rightarrow> cell list" where
  "header_row headers = map (\<lambda>h. Cell h True) headers"

definition rendered_row :: "nat \<Rightarrow> json list \<Rightarrow> cell list" where
  "rendered_row ncols row_data =
     map (\<lambda>v. Cell (py_str v) False) row_data @ replicate (ncols - length row_data) empty_cell"

definition title_paragraph :: "string option \<Rightarrow> block list" where
  "title_paragraph ttl =
     (case ttl of None \<Rightarrow> [] | Some t \<Rightarrow> if t \<noteq> [] then [Paragraph [Run t True]] else [])"

definition table_group :: "string list \<Rightarrow> string option \<Rightarrow> json list list \<Rightarrow> block list" where
  "table_group headers ttl rows =
     title_paragraph ttl @
     [Table ''Table Grid'' (header_row headers # map (rendered_row (length headers)) rows),
      Paragraph []]"

text \<open>No data row is longer than the table is wide.\<close>

definition rows_fit :: "nat \<Rightarrow> json list list \<Rightarrow> bool" where
  "rows_fit ncols rows = list_all (\<lambda>r. length r \<le> ncols) rows"




text \<open>The tables of a document, each as its rows of cell texts.\<close>

fun tables_of :: "block list \<Rightarrow> string list list list" where
  "tables_of [] = []"
| "tables_of (Table style rows # bs) = map (map cell_text) rows # tables_of bs"
| "tables_of (b # bs) = tables_of bs"

text \<open>The input of the transaction scenario, with the value of \<open>approved\<close> left open.\<close>

definition transaction_input :: "bool \<Rightarrow> json" where
  "transaction_input approved =
     JObj [(''objects'', JObj [(''TypeC'', JList [JObj
       [(''transaction_id'', JStr ''T1''), (''amount'', JInt 100), (''currency'', JStr ''USD''),
        (''parties'', JList [JStr ''Alice'', JStr ''Bob'']), (''approved'', JBool approved)]])])]"

text \<open>A template entry with three, three and two columns, used in the examples.\<close>

definition example_template :: template where
  "example_template =
     \<lparr>title = Some ''Section'',
      table1_headers = Some [''A'', ''B'', ''C''], table1_title = Some (Some ''First''),
      table2_headers = Some [''D'', ''E'', ''F''], table2_title = Some (Some ''Second''),
      table3_headers = Some [''G'', ''H''], table3_title = Some None\<rparr>"


text \<open>The five known categories in their fixed order, each with its processor, and the
  assembly loop over such a list: for each category, process it if its key is present.\<close>

definition categories ::
  "(string \<times> ((string \<rightharpoonup> template) \<Rightarrow> json \<Rightarrow> block list \<Rightarrow> error + block list)) list" where
  "categories =
     [(''TypeA'', process_type_a), (''TypeB'', process_type_b), (''TypeC'', process_type_c),
      (''TypeD'', process_type_d), (''TypeE'', process_type_e)]"

definition render_categories ::
  "(string \<rightharpoonup> template) \<Rightarrow> json \<Rightarrow>
   (string \<times> ((string \<rightharpoonup> template) \<Rightarrow> json \<Rightarrow> block list \<Rightarrow> error + block list)) list \<Rightarrow>
   block list \<Rightarrow> error + block list" where
  "render_categories tpls objects cs d =
     for_each (\<lambda>c d. if_present (fst c) objects (snd c tpls) d) cs d"

definition known_category :: "string \<Rightarrow> bool" where
  "known_category k \<longleftrightarrow> k \<in> set (map fst categories)"





























section \<open>Properties\<close>

subsection \<open>Propagation of errors\<close>

lemma bnd_Inr_iff: "bnd m f = Inr y \<longleftrightarrow> (\<exists>x. m = Inr x \<and> f x = Inr y)"
  by (cases m) auto


lemma bnd_assoc: "bnd (bnd m f) g = bnd m (\<lambda>x. bnd (f x) g)"
  by (cases m) auto

lemma bnd_Inr_right: "bnd m Inr = m"
  by (cases m) auto

subsection \<open>The table renderer in closed form\<close>

lemma write_headers_from:
  "k + length hs \<le> length cells \<Longrightarrow>
   for_each (\<lambda>(i, header) cells. bnd (set_text cells i header) (\<lambda>cells. set_bold cells i))
     (enumerate k hs) cells
   = Inr (take k cells @ map (\<lambda>h. Cell h True) hs @ drop (k + length hs) cells)"
proof (induction hs arbitrary: k cells)
  case Nil
  then show ?case by simp
next
  case (Cons h hs)
  let ?cells = "cells[k := Cell h True]"
  have k: "k < length cells" using Cons.prems by simp
  have step: "bnd (set_text cells k h) (\<lambda>cells. set_bold cells k) = Inr ?cells"
    using k by (simp add: set_text_def set_bold_def)
  have "Suc k + length hs \<le> length ?cells" using Cons.prems by simp
  from Cons.IH[OF this]
  have "for_each (\<lambda>(i, header) cells. bnd (set_text cells i header) (\<lambda>cells. set_bold cells i))
          (enumerate (Suc k) hs) ?cells
        = Inr (take (Suc k) ?cells @ map (\<lambda>h. Cell h True) hs @ drop (Suc k + length hs) ?cells)" .
  moreover have "take (Suc k) ?cells = take k cells @ [Cell h True]"
    using k by (simp add: take_Suc_conv_app_nth)
  ultimately show ?case using step by simp
qed

lemma write_headers_fresh:
  "write_headers headers (replicate (length headers) empty_cell) = Inr (header_row headers)"
  using write_headers_from[of 0 headers "replicate (length headers) empty_cell"]
  by (simp add: write_headers_def header_row_def)

lemma fill_row_from:
  "for_each (\<lambda>(i, cell_data) cells. set_text cells i (py_str cell_data)) (enumerate k vs) cells
   = (if vs = [] \<or> k + length vs \<le> length cells
      then Inr (take k cells @ map (\<lambda>v. Cell (py_str v) False) vs @ drop (k + length vs) cells)
      else Inl IndexError)"
proof (induction vs arbitrary: k cells)
  case Nil
  then show ?case by simp
next
  case (Cons v vs)
  show ?case
  proof (cases "k < length cells")
    case False
    then show ?thesis by (simp add: set_text_def)
  next
    case True
    let ?cells = "cells[k := Cell (py_str v) False]"
    have tk: "take (Suc k) ?cells = take k cells @ [Cell (py_str v) False]"
      using True by (simp add: take_Suc_conv_app_nth)
    have "take k cells @ drop k cells = cells" by simp
    show ?thesis
    proof (cases "vs = []")
      case True
      with \<open>k < length cells\<close> show ?thesis
        by (simp add: set_text_def upd_conv_take_nth_drop)
    next
      case False
      with True tk Cons.IH[of "Suc k" ?cells] show ?thesis
        by (simp add: set_text_def)
    qed
  qed
qed

lemma fill_row_fresh:
  "fill_row row_data (replicate ncols empty_cell)
   = (if length row_data \<le> ncols then Inr (rendered_row ncols row_data) else Inl IndexError)"
  using fill_row_from[of 0 row_data "replicate ncols empty_cell"]
  by (auto simp: fill_row_def rendered_row_def)

lemma add_rows_eq:
  "add_rows ncols rows trs
   = (if rows_fit ncols rows then Inr (trs @ map (rendered_row ncols) rows) else Inl IndexError)"
  unfolding add_rows_def rows_fit_def
  by (induction rows arbitrary: trs) (simp_all add: fill_row_fresh)

lemma add_table_eq:
  "add_table headers rows ttl d
   = (if rows_fit (length headers) rows then Inr (d @ table_group headers ttl rows) else Inl IndexError)"
  by (simp add: add_table_def Let_def write_headers_fresh add_rows_eq table_group_def title_paragraph_def
      split: option.splits)







subsection \<open>When a step succeeds, and what it appends\<close>

lemma comprehension_Inr_iff:
  "comprehension f xs = Inr ys \<longleftrightarrow> list_all2 (\<lambda>x y. f x = Inr y) xs ys"
proof (induction xs arbitrary: ys)
  case Nil
  then show ?case by auto
next
  case (Cons x xs)
  then show ?case by (cases ys) (auto simp: bnd_Inr_iff)
qed

lemma for_each_Inr_iff:
  assumes "\<And>x d d'. x \<in> set xs \<Longrightarrow> body x d = Inr d' \<longleftrightarrow> (\<exists>bs. body x [] = Inr bs \<and> d' = d @ bs)"
  shows "for_each body xs d = Inr d' \<longleftrightarrow>
         (\<exists>bss. list_all2 (\<lambda>x bs. body x [] = Inr bs) xs bss \<and> d' = d @ concat bss)"
  using assms
proof (induction xs arbitrary: d)
  case Nil
  show ?case by auto
next
  case (Cons x xs)
  have step: "body x d = Inr d' \<longleftrightarrow> (\<exists>bs. body x [] = Inr bs \<and> d' = d @ bs)" for d d'
    by (rule Cons.prems) simp
  have rest: "for_each body xs d = Inr d' \<longleftrightarrow>
         (\<exists>bss. list_all2 (\<lambda>x bs. body x [] = Inr bs) xs bss \<and> d' = d @ concat bss)" for d
  proof (rule Cons.IH)
    fix y d d'
    assume "y \<in> set xs"
    then have "y \<in> set (x # xs)" by simp
    then show "body y d = Inr d' \<longleftrightarrow> (\<exists>bs. body y [] = Inr bs \<and> d' = d @ bs)"
      by (rule Cons.prems)
  qed
  show ?case
  proof
    assume "for_each body (x # xs) d = Inr d'"
    then obtain d1 where d1: "body x d = Inr d1" and r: "for_each body xs d1 = Inr d'"
      by (auto simp: bnd_Inr_iff)
    from d1 obtain bs where bs: "body x [] = Inr bs" "d1 = d @ bs"
      unfolding step[of d d1] by blast
    from r obtain bss where bss: "list_all2 (\<lambda>x bs. body x [] = Inr bs) xs bss" "d' = d1 @ concat bss"
      unfolding rest[of d1] by blast
    from bs bss have "list_all2 (\<lambda>x bs. body x [] = Inr bs) (x # xs) (bs # bss) \<and> d' = d @ concat (bs # bss)"
      by simp
    then show "\<exists>bss. list_all2 (\<lambda>x bs. body x [] = Inr bs) (x # xs) bss \<and> d' = d @ concat bss"
      by blast
  next
    assume "\<exists>bss. list_all2 (\<lambda>x bs. body x [] = Inr bs) (x # xs) bss \<and> d' = d @ concat bss"
    then obtain bs bss where a: "body x [] = Inr bs" "list_all2 (\<lambda>x bs. body x [] = Inr bs) xs bss"
      "d' = d @ bs @ concat bss"
      by (auto simp: list_all2_Cons1)
    have "body x d = Inr (d @ bs)"
      unfolding step[of d "d @ bs"] using a(1) by blast
    moreover have "for_each body xs (d @ bs) = Inr d'"
      unfolding rest[of "d @ bs"] using a(2,3) by auto
    ultimately show "for_each body (x # xs) d = Inr d'" by simp
  qed
qed

lemma lookup_key_Inr_iff: "lookup_key k v = Inr x \<longleftrightarrow> v = Some x"
  by (simp add: lookup_key_def split: option.splits)

lemma template_table_Inr_iff:
  "template_table hk hv tk tv rows d = Inr d' \<longleftrightarrow>
   (\<exists>h t. hv = Some h \<and> tv = Some t \<and> rows_fit (length h) rows \<and> d' = d @ table_group h t rows)"
  by (auto simp: template_table_def bnd_Inr_iff lookup_key_Inr_iff add_table_eq)

lemma table1_Inr_iff:
  "table1 tpl rows d = Inr d' \<longleftrightarrow>
   (\<exists>h t. table1_headers tpl = Some h \<and> table1_title tpl = Some t \<and> rows_fit (length h) rows \<and>
          d' = d @ table_group h t rows)"
  by (simp add: table1_def template_table_Inr_iff)

lemma table2_Inr_iff:
  "table2 tpl rows d = Inr d' \<longleftrightarrow>
   (\<exists>h t. table2_headers tpl = Some h \<and> table2_title tpl = Some t \<and> rows_fit (length h) rows \<and>
          d' = d @ table_group h t rows)"
  by (simp add: table2_def template_table_Inr_iff)

lemma table3_Inr_iff:
  "table3 tpl rows d = Inr d' \<longleftrightarrow>
   (\<exists>h t. table3_headers tpl = Some h \<and> table3_title tpl = Some t \<and> rows_fit (length h) rows \<and>
          d' = d @ table_group h t rows)"
  by (simp add: table3_def template_table_Inr_iff)

lemmas table_Inr_iff = table1_Inr_iff table2_Inr_iff table3_Inr_iff

lemma type_a_item_Inr_iff:
  "type_a_item tpl item d = Inr d' \<longleftrightarrow>
   (\<exists>params a b c h2 t2.
      py_getitem item ''parameters'' = Inr params \<and>
      py_getitem params ''status'' = Inr a \<and>
      py_getitem params ''priority'' = Inr b \<and>
      py_getitem params ''last_updated'' = Inr c \<and>
      table2_headers tpl = Some h2 \<and> table2_title tpl = Some t2 \<and>
      rows_fit (length h2) [[a, b, c]] \<and>
      d' = d @ table_group h2 t2 [[a, b, c]])"
  unfolding type_a_item_def bnd_Inr_iff table_Inr_iff
  by (rule iffI; (elim exE conjE)?; simp)

lemma type_a_item_appends:
  "type_a_item tpl item d = Inr d' \<longleftrightarrow> (\<exists>bs. type_a_item tpl item [] = Inr bs \<and> d' = d @ bs)"
  unfolding type_a_item_Inr_iff by auto

lemma for_each_type_a_item:
  "for_each (type_a_item tpl) xs d = Inr d' \<longleftrightarrow>
   (\<exists>bss. list_all2 (\<lambda>x bs. type_a_item tpl x [] = Inr bs) xs bss \<and> d' = d @ concat bss)"
  by (rule for_each_Inr_iff) (rule type_a_item_appends)




lemma type_c_item_Inr_iff:
  "type_c_item tpl item d = Inr d' \<longleftrightarrow>
   (\<exists>a b c parties ps approved h1 t1 h2 t2 h3 t3.
      py_getitem item ''transaction_id'' = Inr a \<and>
      py_getitem item ''amount'' = Inr b \<and>
      py_getitem item ''currency'' = Inr c \<and>
      py_getitem item ''parties'' = Inr parties \<and>
      py_iter parties = Inr ps \<and>
      py_getitem item ''approved'' = Inr approved \<and>
      table1_headers tpl = Some h1 \<and> table1_title tpl = Some t1 \<and>
      rows_fit (length h1) [[a, b, c]] \<and>
      table2_headers tpl = Some h2 \<and> table2_title tpl = Some t2 \<and>
      rows_fit (length h2) (numbered ps) \<and>
      table3_headers tpl = Some h3 \<and> table3_title tpl = Some t3 \<and>
      rows_fit (length h3) [[JStr ''Approved'', JStr (if py_truthy approved then ''Yes'' else ''No'')]] \<and>
      d' = d @ table_group h1 t1 [[a, b, c]] @ table_group h2 t2 (numbered ps) @ table_group h3 t3 [[JStr ''Approved'', JStr (if py_truthy approved then ''Yes'' else ''No'')]])"
  unfolding type_c_item_def bnd_Inr_iff table_Inr_iff
  by (rule iffI; (elim exE conjE)?; simp)


















lemma process_type_a_Inr_iff:
  "process_type_a tpls data d = Inr d' \<longleftrightarrow>
   (\<exists>tpl t items rows h1 t1 bss n h3 t3.
      tpls ''type_a'' = Some tpl \<and> title tpl = Some t \<and> py_iter data = Inr items \<and>
      list_all2 (\<lambda>item row. type_a_row item = Inr row) items rows \<and>
      table1_headers tpl = Some h1 \<and> table1_title tpl = Some t1 \<and> rows_fit (length h1) rows \<and>
      list_all2 (\<lambda>item bs. type_a_item tpl item [] = Inr bs) items bss \<and>
      py_len data = Inr n \<and>
      table3_headers tpl = Some h3 \<and> table3_title tpl = Some t3 \<and>
      rows_fit (length h3) [[JStr ''Total Devices'', JInt n]] \<and>
      d' = d @ [Heading 1 t True, Paragraph []] @ table_group h1 t1 rows @ concat bss
             @ table_group h3 t3 [[JStr ''Total Devices'', JInt n]])"
  unfolding process_type_a_def Let_def bnd_Inr_iff lookup_key_Inr_iff for_each_type_a_item add_title_def
    comprehension_Inr_iff table_Inr_iff
  by (rule iffI; (elim exE conjE)?; auto)





subsection \<open>Type A\<close>



lemma str_int_0: "str_int 0 = ''0''"
  by (simp add: str_int_def digits.simps digit_char_def)

lemma str_int_1: "str_int 1 = ''1''"
  by (simp add: str_int_def digits.simps digit_char_def)

lemma str_int_2: "str_int 2 = ''2''"
  by (simp add: str_int_def digits.simps digit_char_def)

lemma str_int_100: "str_int 100 = ''100''"
  by (simp add: str_int_def digits.simps digit_char_def)



text \<open>
  Claim C4, as amended. For an empty Type A list, \<open>process_type_a\<close> appends the section
  title, a Table 1 that has its header row only, no Table 2 at all (Table 2 is appended once
  per record), and a Table 3 whose single data row is Total Devices and 0.
\<close>

theorem process_type_a_empty:
  assumes "tpls ''type_a'' = Some tpl" and "title tpl = Some t"
    and "table1_headers tpl = Some h1" and "table1_title tpl = Some t1"
    and "table3_headers tpl = Some h3" and "table3_title tpl = Some t3"
    and "2 \<le> length h3"
  shows "process_type_a tpls (JList []) d =
           Inr (d @ [Heading 1 t True, Paragraph []]
                  @ title_paragraph t1 @ [Table ''Table Grid'' [header_row h1], Paragraph []]
                  @ title_paragraph t3
                  @ [Table ''Table Grid''
                       [header_row h3,
                        [Cell ''Total Devices'' False, Cell ''0'' False]
                        @ replicate (length h3 - 2) empty_cell],
                     Paragraph []])"
  unfolding process_type_a_Inr_iff
  using assms
  by (intro exI[of _ tpl] exI[of _ t] exI[of _ "[]"] exI[of _ "[]"] exI[of _ h1]
        exI[of _ t1] exI[of _ "[]"] exI[of _ 0] exI[of _ h3] exI[of _ t3])
     (simp add: rows_fit_def table_group_def rendered_row_def str_int_0)

theorem process_type_a_empty_witness:
  "(2::nat) \<le> length [''G'', ''H''] \<and>
   process_type_a [''type_a'' \<mapsto> example_template] (JList []) [] =
     Inr [Heading 1 ''Section'' True, Paragraph [],
          Paragraph [Run ''First'' True],
          Table ''Table Grid'' [[Cell ''A'' True, Cell ''B'' True, Cell ''C'' True]],
          Paragraph [],
          Table ''Table Grid''
            [[Cell ''G'' True, Cell ''H'' True],
             [Cell ''Total Devices'' False, Cell ''0'' False]],
          Paragraph []]"
proof -
  show ?thesis
    using process_type_a_empty [of "[''type_a'' \<mapsto> example_template]" example_template "''Section''" "[''A'', ''B'', ''C'']" "Some ''First''"
        "[''G'', ''H'']" None "[]"]
    by (simp add: example_template_def title_paragraph_def header_row_def)
qed

text \<open>
  Claim C4 as stated fails: for the empty list the output holds two tables, Table 1 and
  Table 3; there is no Table 2 with a header row only.
\<close>

theorem process_type_a_empty_no_table2_counterexample:
  "tables_of (case process_type_a [''type_a'' \<mapsto> example_template] (JList []) [] of
                Inl e \<Rightarrow> [] | Inr d \<Rightarrow> d) =
     [[[''A'', ''B'', ''C'']],
      [[''G'', ''H''], [''Total Devices'', ''0'']]]"
  by (simp add: process_type_a_def lookup_key_def example_template_def add_title_def
      table1_def table3_def template_table_def add_table_eq rows_fit_def table_group_def
      title_paragraph_def header_row_def rendered_row_def str_int_0)

subsection \<open>The transaction scenario\<close>

text \<open>
  Claim C3. On the input with one Type C record (transaction T1, amount 100, currency USD,
  parties Alice and Bob), and for every template entry whose header rows are wide enough,
  the saved document holds a table with the data row T1, 100, USD, a table with the data
  rows 1, Alice and 2, Bob (the parties numbered from one), and a table with the data row
  Approved, Yes when \<open>approved\<close> is true and Approved, No when it is false.
\<close>

theorem transaction_scenario:
  assumes "tpls ''type_c'' = Some tpl" and "title tpl = Some t"
    and "table1_headers tpl = Some h1" and "table1_title tpl = Some t1"
    and "table2_headers tpl = Some h2" and "table2_title tpl = Some t2"
    and "table3_headers tpl = Some h3" and "table3_title tpl = Some t3"
    and "3 \<le> length h1" and "2 \<le> length h2" and "2 \<le> length h3"
    and "writable fs output_file"
  shows "generate_document \<lparr>json_data = transaction_input approved, templates = tpls, doc = []\<rparr>
           output_file fs =
         (None, fs\<lparr>files := (files fs)(output_file \<mapsto>
            [Heading 1 t True, Paragraph []]
            @ title_paragraph t1
            @ [Table ''Table Grid''
                 [header_row h1,
                  [Cell ''T1'' False, Cell ''100'' False, Cell ''USD'' False]
                  @ replicate (length h1 - 3) empty_cell],
               Paragraph []]
            @ title_paragraph t2
            @ [Table ''Table Grid''
                 [header_row h2,
                  [Cell ''1'' False, Cell ''Alice'' False] @ replicate (length h2 - 2) empty_cell,
                  [Cell ''2'' False, Cell ''Bob'' False] @ replicate (length h2 - 2) empty_cell],
               Paragraph []]
            @ title_paragraph t3
            @ [Table ''Table Grid''
                 [header_row h3,
                  [Cell ''Approved'' False, Cell (if approved then ''Yes'' else ''No'') False]
                  @ replicate (length h3 - 2) empty_cell],
               Paragraph []])\<rparr>)"
proof -
  let ?item = "JObj [(''transaction_id'', JStr ''T1''), (''amount'', JInt 100),
        (''currency'', JStr ''USD''), (''parties'', JList [JStr ''Alice'', JStr ''Bob'']),
        (''approved'', JBool approved)]"
  have item: "type_c_item tpl ?item d =
      Inr (d @ table_group h1 t1 [[JStr ''T1'', JInt 100, JStr ''USD'']]
             @ table_group h2 t2 [[JInt 1, JStr ''Alice''], [JInt 2, JStr ''Bob'']]
             @ table_group h3 t3 [[JStr ''Approved'', JStr (if approved then ''Yes'' else ''No'')]])" for d
    unfolding type_c_item_Inr_iff using assms(3-11)
    by (simp add: lookup_key_def rows_fit_def numbered_def)
  have "process_type_c tpls (JList [?item]) [] =
      Inr ([Heading 1 t True, Paragraph []]
             @ table_group h1 t1 [[JStr ''T1'', JInt 100, JStr ''USD'']]
             @ table_group h2 t2 [[JInt 1, JStr ''Alice''], [JInt 2, JStr ''Bob'']]
             @ table_group h3 t3 [[JStr ''Approved'', JStr (if approved then ''Yes'' else ''No'')]])"
    using assms(1,2) by (simp add: process_type_c_def lookup_key_def add_title_def item)
  then have a: "assemble \<lparr>json_data = transaction_input approved, templates = tpls, doc = []\<rparr> =
      Inr ([Heading 1 t True, Paragraph []]
             @ table_group h1 t1 [[JStr ''T1'', JInt 100, JStr ''USD'']]
             @ table_group h2 t2 [[JInt 1, JStr ''Alice''], [JInt 2, JStr ''Bob'']]
             @ table_group h3 t3 [[JStr ''Approved'', JStr (if approved then ''Yes'' else ''No'')]])"
    by (simp add: assemble_def transaction_input_def if_present_def lookup_key_def)
  have yes_no: "py_str (JStr (if approved then ''Yes'' else ''No'')) = (if approved then ''Yes'' else ''No'')"
    by simp
  show ?thesis
    unfolding generate_document_def a
    using assms(12)
    by (simp only: sum.case save_def if_True table_group_def rendered_row_def list.map
        py_str.simps py_repr.simps str_int_1 str_int_2 str_int_100 yes_no list.size length_Cons
        append_Cons append_Nil append_assoc)
       (simp add: numeral_3_eq_3 numeral_2_eq_2)
qed

theorem transaction_scenario_witness:
  "writable \<lparr>files = Map.empty, writable = (\<lambda>p. True)\<rparr> ''output.docx'' \<and>
   map_option tables_of
     (files (snd (generate_document
        \<lparr>json_data = transaction_input True, templates = [''type_c'' \<mapsto> example_template], doc = []\<rparr>
        ''output.docx'' \<lparr>files = Map.empty, writable = (\<lambda>p. True)\<rparr>)) ''output.docx'') =
   Some [[[''A'', ''B'', ''C''], [''T1'', ''100'', ''USD'']],
         [[''D'', ''E'', ''F''], [''1'', ''Alice'', ''''], [''2'', ''Bob'', '''']],
         [[''G'', ''H''], [''Approved'', ''Yes'']]]"
  using transaction_scenario [of "[''type_c'' \<mapsto> example_template]" example_template
      "''Section''" "[''A'', ''B'', ''C'']" "Some ''First''" "[''D'', ''E'', ''F'']" "Some ''Second''"
      "[''G'', ''H'']" None "\<lparr>files = Map.empty, writable = (\<lambda>p. True)\<rparr>" "''output.docx''" True]
  by (simp add: example_template_def title_paragraph_def header_row_def empty_cell_def)

subsection \<open>Assembly\<close>

lemma for_each_Nil_eq: "for_each body [] = Inr"
  by (rule ext) simp

lemma for_each_Cons_eq: "for_each body (x # xs) = (\<lambda>s. bnd (body x s) (for_each body xs))"
  by (rule ext) simp

lemma bnd_cong_ext: "(\<And>x. f x = g x) \<Longrightarrow> bnd m f = bnd m g"
  by (cases m) auto

lemma assemble_render:
  "assemble self =
   bnd (py_get (json_data self) ''objects'' (JObj []))
     (\<lambda>objects. render_categories (templates self) objects categories (doc self))"
  by (simp add: assemble_def render_categories_def categories_def for_each_Nil_eq for_each_Cons_eq
      bnd_Inr_right)

lemma if_present_absent:
  "key \<notin> fst ` set kvs \<Longrightarrow> if_present key (JObj kvs) process d = Inr d"
  by (simp add: if_present_def)

lemma render_categories_skip:
  assumes "key \<notin> fst ` set kvs"
  shows "render_categories tpls (JObj kvs) cs d =
         render_categories tpls (JObj kvs) (filter (\<lambda>c. fst c \<noteq> key) cs) d"
  unfolding render_categories_def
  using assms
  by (induction cs arbitrary: d) (auto simp: if_present_absent intro: bnd_cong_ext)

lemma map_of_filter_key:
  "P k \<Longrightarrow> map_of (filter (\<lambda>kv. P (fst kv)) kvs) k = map_of kvs k"
  by (induction kvs) auto

lemma if_present_filter:
  assumes "P key"
  shows "if_present key (JObj (filter (\<lambda>kv. P (fst kv)) kvs)) process d =
         if_present key (JObj kvs) process d"
proof -
  have "key \<in> fst ` set (filter (\<lambda>kv. P (fst kv)) kvs) \<longleftrightarrow> key \<in> fst ` set kvs"
    using assms by auto
  then show ?thesis
    using assms by (simp add: if_present_def map_of_filter_key)
qed

lemma render_categories_filter:
  assumes "\<forall>c \<in> set cs. P (fst c)"
  shows "render_categories tpls (JObj (filter (\<lambda>kv. P (fst kv)) kvs)) cs d =
         render_categories tpls (JObj kvs) cs d"
  unfolding render_categories_def
  using assms
  by (induction cs arbitrary: d) (auto simp: if_present_filter intro: bnd_cong_ext)

text \<open>
  Claim C5. When the objects mapping has no entry for a category key, the step of that
  category returns the document unchanged whatever its processor is (the processor is not
  called and no error is raised), and the run is the run over the remaining categories.
\<close>

theorem absent_category_skipped:
  assumes "py_get (json_data self) ''objects'' (JObj []) = Inr (JObj kvs)"
    and "key \<notin> fst ` set kvs"
  shows "(\<forall>process d. if_present key (JObj kvs) process d = Inr d) \<and>
         generate_document self output_file fs =
           (case render_categories (templates self) (JObj kvs)
                   (filter (\<lambda>c. fst c \<noteq> key) categories) (doc self) of
              Inl e \<Rightarrow> (Some e, fs)
            | Inr d \<Rightarrow> save d output_file fs)"
proof (intro conjI allI)
  fix process d
  show "if_present key (JObj kvs) process d = Inr d"
    using assms(2) by (rule if_present_absent)
next
  have "assemble self = render_categories (templates self) (JObj kvs) categories (doc self)"
    by (simp add: assemble_render assms(1))
  also have "\<dots> = render_categories (templates self) (JObj kvs)
                     (filter (\<lambda>c. fst c \<noteq> key) categories) (doc self)"
    using assms(2) by (rule render_categories_skip)
  finally show "generate_document self output_file fs =
           (case render_categories (templates self) (JObj kvs)
                   (filter (\<lambda>c. fst c \<noteq> key) categories) (doc self) of
              Inl e \<Rightarrow> (Some e, fs)
            | Inr d \<Rightarrow> save d output_file fs)"
    by (simp add: generate_document_def)
qed

theorem absent_category_skipped_witness:
  "py_get (JObj [(''objects'', JObj [(''TypeA'', JList [])])]) ''objects'' (JObj []) =
     Inr (JObj [(''TypeA'', JList [])]) \<and>
   ''TypeC'' \<notin> fst ` set [(''TypeA'', JList [])] \<and>
   if_present ''TypeC'' (JObj [(''TypeA'', JList [])])
     (process_type_c [''type_a'' \<mapsto> example_template]) [Paragraph []] = Inr [Paragraph []] \<and>
   generate_document
     \<lparr>json_data = JObj [(''objects'', JObj [(''TypeA'', JList [])])],
      templates = [''type_a'' \<mapsto> example_template], doc = []\<rparr>
     ''output.docx'' \<lparr>files = Map.empty, writable = (\<lambda>p. True)\<rparr> =
   (case render_categories [''type_a'' \<mapsto> example_template] (JObj [(''TypeA'', JList [])])
           [(''TypeA'', process_type_a), (''TypeB'', process_type_b),
            (''TypeD'', process_type_d), (''TypeE'', process_type_e)] [] of
      Inl e \<Rightarrow> (Some e, \<lparr>files = Map.empty, writable = (\<lambda>p. True)\<rparr>)
    | Inr d \<Rightarrow> save d ''output.docx'' \<lparr>files = Map.empty, writable = (\<lambda>p. True)\<rparr>)"
proof -
  let ?self = "\<lparr>json_data = JObj [(''objects'', JObj [(''TypeA'', JList [])])],
      templates = [''type_a'' \<mapsto> example_template], doc = []\<rparr>"
  have objects: "py_get (json_data ?self) ''objects'' (JObj []) = Inr (JObj [(''TypeA'', JList [])])"
    by simp
  have absent: "''TypeC'' \<notin> fst ` set [(''TypeA'', JList [])]"
    by simp
  have remaining: "filter (\<lambda>c. fst c \<noteq> ''TypeC'') categories =
      [(''TypeA'', process_type_a), (''TypeB'', process_type_b),
       (''TypeD'', process_type_d), (''TypeE'', process_type_e)]"
    by (simp add: categories_def)
  show ?thesis
    using absent_category_skipped [OF objects absent, of "''output.docx''"
        "\<lparr>files = Map.empty, writable = (\<lambda>p. True)\<rparr>"] absent
    by (simp add: remaining)
qed

text \<open>
  Claim C10. When the input dictionary has no objects key, the generator saves an empty
  document without error. When it has one, every key of the objects mapping other than the
  five category names is ignored: the run is the same as on the input without those keys.
\<close>

theorem missing_objects_and_unknown_keys:
  "(map_of root ''objects'' = None \<longrightarrow> writable fs output_file \<longrightarrow>
      generate_document \<lparr>json_data = JObj root, templates = tpls, doc = []\<rparr> output_file fs =
        (None, fs\<lparr>files := (files fs)(output_file \<mapsto> [])\<rparr>)) \<and>
   (map_of root ''objects'' = Some (JObj kvs) \<longrightarrow>
      generate_document \<lparr>json_data = JObj root, templates = tpls, doc = d\<rparr> output_file fs =
      generate_document
        \<lparr>json_data = JObj [(''objects'', JObj (filter (\<lambda>kv. known_category (fst kv)) kvs))],
         templates = tpls, doc = d\<rparr> output_file fs)"
proof (intro conjI impI)
  assume "map_of root ''objects'' = None" and "writable fs output_file"
  then show "generate_document \<lparr>json_data = JObj root, templates = tpls, doc = []\<rparr> output_file fs =
        (None, fs\<lparr>files := (files fs)(output_file \<mapsto> [])\<rparr>)"
    by (simp add: generate_document_def assemble_def if_present_def save_def)
next
  assume root: "map_of root ''objects'' = Some (JObj kvs)"
  have known: "\<forall>c \<in> set categories. known_category (fst c)"
    by (simp add: known_category_def)
  have "assemble \<lparr>json_data = JObj root, templates = tpls, doc = d\<rparr> =
        render_categories tpls (JObj kvs) categories d"
    using root by (simp add: assemble_render)
  also have "\<dots> = render_categories tpls (JObj (filter (\<lambda>kv. known_category (fst kv)) kvs)) categories d"
    using known by (simp add: render_categories_filter)
  also have "\<dots> = assemble
        \<lparr>json_data = JObj [(''objects'', JObj (filter (\<lambda>kv. known_category (fst kv)) kvs))],
         templates = tpls, doc = d\<rparr>"
    by (simp add: assemble_render)
  finally show "generate_document \<lparr>json_data = JObj root, templates = tpls, doc = d\<rparr> output_file fs =
      generate_document
        \<lparr>json_data = JObj [(''objects'', JObj (filter (\<lambda>kv. known_category (fst kv)) kvs))],
         templates = tpls, doc = d\<rparr> output_file fs"
    by (simp add: generate_document_def)
qed

theorem missing_objects_and_unknown_keys_witness:
  "map_of [(''meta'', JNull)] ''objects'' = None \<and>
   writable \<lparr>files = Map.empty, writable = (\<lambda>p. True)\<rparr> ''output.docx'' \<and>
   generate_document \<lparr>json_data = JObj [(''meta'', JNull)], templates = Map.empty, doc = []\<rparr>
     ''output.docx'' \<lparr>files = Map.empty, writable = (\<lambda>p. True)\<rparr> =
     (None, \<lparr>files = [''output.docx'' \<mapsto> []], writable = (\<lambda>p. True)\<rparr>) \<and>
   map_of [(''objects'', JObj [(''Other'', JList [JInt 1]), (''TypeA'', JList [])])] ''objects'' =
     Some (JObj [(''Other'', JList [JInt 1]), (''TypeA'', JList [])]) \<and>
   generate_document
     \<lparr>json_data = JObj [(''objects'', JObj [(''Other'', JList [JInt 1]), (''TypeA'', JList [])])],
      templates = [''type_a'' \<mapsto> example_template], doc = []\<rparr>
     ''output.docx'' \<lparr>files = Map.empty, writable = (\<lambda>p. True)\<rparr> =
   generate_document
     \<lparr>json_data = JObj [(''objects'', JObj [(''TypeA'', JList [])])],
      templates = [''type_a'' \<mapsto> example_template], doc = []\<rparr>
     ''output.docx'' \<lparr>files = Map.empty, writable = (\<lambda>p. True)\<rparr>"
proof -
  let ?fs = "\<lparr>files = Map.empty, writable = (\<lambda>p. True)\<rparr>"
  have none: "map_of [(''meta'', JNull)] ''objects'' = None"
    by simp
  have w: "writable ?fs ''output.docx''"
    by simp
  have some: "map_of [(''objects'', JObj [(''Other'', JList [JInt 1]), (''TypeA'', JList [])])] ''objects'' =
     Some (JObj [(''Other'', JList [JInt 1]), (''TypeA'', JList [])])"
    by simp
  have known: "filter (\<lambda>kv. known_category (fst kv)) [(''Other'', JList [JInt 1]), (''TypeA'', JList [])]
               = [(''TypeA'', JList [])]"
    by (simp add: known_category_def categories_def)
  have empty: "generate_document \<lparr>json_data = JObj [(''meta'', JNull)], templates = Map.empty, doc = []\<rparr>
     ''output.docx'' ?fs = (None, ?fs\<lparr>files := (files ?fs)(''output.docx'' \<mapsto> [])\<rparr>)"
    using missing_objects_and_unknown_keys [of "[(''meta'', JNull)]" ?fs "''output.docx''" Map.empty]
      none w by blast
  have ignored: "generate_document
     \<lparr>json_data = JObj [(''objects'', JObj [(''Other'', JList [JInt 1]), (''TypeA'', JList [])])],
      templates = [''type_a'' \<mapsto> example_template], doc = []\<rparr> ''output.docx'' ?fs =
   generate_document
     \<lparr>json_data = JObj [(''objects'', JObj (filter (\<lambda>kv. known_category (fst kv))
          [(''Other'', JList [JInt 1]), (''TypeA'', JList [])]))],
      templates = [''type_a'' \<mapsto> example_template], doc = []\<rparr> ''output.docx'' ?fs"
    using missing_objects_and_unknown_keys [of
        "[(''objects'', JObj [(''Other'', JList [JInt 1]), (''TypeA'', JList [])])]"
        ?fs "''output.docx''" "[''type_a'' \<mapsto> example_template]"
        "[(''Other'', JList [JInt 1]), (''TypeA'', JList [])]" "[]"]
      some by blast
  have fs: "?fs\<lparr>files := (files ?fs)(''output.docx'' \<mapsto> [])\<rparr> =
            \<lparr>files = [''output.docx'' \<mapsto> []], writable = (\<lambda>p. True)\<rparr>"
    by simp
  show ?thesis
    using none w some empty [unfolded fs] ignored [unfolded known]
    by (intro conjI)
qed

subsection \<open>The order of the blocks\<close>

















subsection \<open>Identifying fields in the table cells\<close>





















subsection \<open>Missing fields and template keys\<close>

















































end
